theory Spec2Isabelle
  imports Main "HOL-Library.AList" "HOL-Library.Sublist"
begin

section \<open>Python values, exceptions and iterators\<close>

text \<open>
  The server \<^verbatim>\<open>mcp_firebase_server.py\<close> is glue between a tool-call transport and the
  Firestore client library. The client library is not part of the repository, so the
  model takes it as a parameter: a record of the calls the source makes on it, each of
  which may raise. The code of the server itself (the lifespan function and the five tools)
  is embedded function by function. The \<^verbatim>\<open>print\<close> statements are left out: they only
  write to the log.

  A Python \<^verbatim>\<open>dict\<close> with string keys is an association list in insertion order;
  \<^verbatim>\<open>d[k] = v\<close> is \<open>AList.update k v d\<close> (overwrite in place, or append a new key) and
  a lookup is \<open>map_of d k\<close>.
\<close>

datatype pyval =
    PNone
  | PBool bool
  | PInt int
  | PStr string
  | PList "pyval list"
  | PDict "(string \<times> pyval) list"

type_synonym pydict = "(string \<times> pyval) list"

text \<open>An exception object derived from \<^verbatim>\<open>Exception\<close>; the string is \<^verbatim>\<open>str(e)\<close>.\<close>

datatype exn = Exception string

fun str :: "exn \<Rightarrow> string" where
  "str (Exception m) = m"

text \<open>
  A Python iterator (the generators returned by \<^verbatim>\<open>stream()\<close> and \<^verbatim>\<open>collections()\<close>):
  it is exhausted, or yields one item and continues, or raises.
\<close>

datatype 'a iterator = Stop | Yield 'a "'a iterator" | Raise exn

fun items :: "'a iterator \<Rightarrow> 'a list" where
  "items Stop = []"
| "items (Yield x it) = x # items it"
| "items (Raise e) = []"

fun raised :: "'a iterator \<Rightarrow> exn option" where
  "raised Stop = None"
| "raised (Yield x it) = raised it"
| "raised (Raise e) = Some e"

fun iterator_of :: "'a list \<Rightarrow> 'a iterator" where
  "iterator_of [] = Stop"
| "iterator_of (x # xs) = Yield x (iterator_of xs)"

text \<open>\<^verbatim>\<open>try: body except Exception as e: handler\<close>, where the handler returns a value.\<close>

definition try_except :: "exn + 'a \<Rightarrow> (exn \<Rightarrow> 'a) \<Rightarrow> exn + 'a" where
  "try_except body handler = (case body of Inr v \<Rightarrow> Inr v | Inl e \<Rightarrow> Inr (handler e))"

text \<open>The text \<^verbatim>\<open>'{s}'\<close> of an f-string: the value between single quotes.\<close>

definition quoted :: "string \<Rightarrow> string" where
  "quoted s = CHR 0x27 # s @ [CHR 0x27]"

text \<open>Truthiness of the result of \<^verbatim>\<open>to_dict()\<close>: \<^verbatim>\<open>None\<close> and the empty dict are false.\<close>

fun truthy :: "pydict option \<Rightarrow> bool" where
  "truthy None = False"
| "truthy (Some d) = (d \<noteq> [])"

section \<open>The document store collaborator\<close>

text \<open>A \<^verbatim>\<open>DocumentSnapshot\<close>: \<^verbatim>\<open>doc.id\<close>, \<^verbatim>\<open>doc.exists\<close> and the value of \<^verbatim>\<open>doc.to_dict()\<close>.\<close>

record DocumentSnapshot =
  doc_id :: string
  doc_exists :: bool
  to_dict :: "pydict option"

text \<open>
  The calls the source makes on the Firestore client, over a store state \<open>'w\<close>:
  \<^item> \<open>limit_stream c n\<close> is \<^verbatim>\<open>db.collection(c).limit(n).stream()\<close>;
  \<^item> \<open>collection_add c d\<close> is \<^verbatim>\<open>db.collection(c).add(d)\<close>, returning \<^verbatim>\<open>doc_ref.id\<close>
    (the timestamp is dropped by the source);
  \<^item> \<open>db_collections\<close> is \<^verbatim>\<open>db.collections()\<close>, yielding each \<^verbatim>\<open>coll_ref.id\<close>;
  \<^item> \<open>document_get c i\<close> is \<^verbatim>\<open>db.collection(c).document(i).get()\<close>;
  \<^item> \<open>document_collections c i\<close> is \<^verbatim>\<open>db.collection(c).document(i).collections()\<close>.
  A call that raises before it returns an iterator is the iterator \<open>Raise e\<close>.
\<close>

record 'w client =
  limit_stream :: "string \<Rightarrow> int \<Rightarrow> 'w \<Rightarrow> DocumentSnapshot iterator \<times> 'w"
  collection_add :: "string \<Rightarrow> pydict \<Rightarrow> 'w \<Rightarrow> (exn + string) \<times> 'w"
  db_collections :: "'w \<Rightarrow> string iterator \<times> 'w"
  document_get :: "string \<Rightarrow> string \<Rightarrow> 'w \<Rightarrow> (exn + DocumentSnapshot) \<times> 'w"
  document_collections :: "string \<Rightarrow> string \<Rightarrow> 'w \<Rightarrow> string iterator \<times> 'w"

text \<open>
  The world outside the server: the store's state and the record of the store calls made
  so far (what a recording test double of the client would keep).
\<close>

datatype call =
    LimitStream string int
  | CollectionAdd string pydict
  | DbCollections
  | DocumentGet string string
  | DocumentCollections string string

record 'w world =
  store :: 'w
  calls :: "call list"

definition call_limit_stream ::
  "'w client \<Rightarrow> string \<Rightarrow> int \<Rightarrow> 'w world \<Rightarrow> DocumentSnapshot iterator \<times> 'w world" where
  "call_limit_stream cl c n w =
     (case limit_stream cl c n (store w) of
        (it, s) \<Rightarrow> (it, \<lparr>store = s, calls = calls w @ [LimitStream c n]\<rparr>))"

definition call_collection_add ::
  "'w client \<Rightarrow> string \<Rightarrow> pydict \<Rightarrow> 'w world \<Rightarrow> (exn + string) \<times> 'w world" where
  "call_collection_add cl c d w =
     (case collection_add cl c d (store w) of
        (r, s) \<Rightarrow> (r, \<lparr>store = s, calls = calls w @ [CollectionAdd c d]\<rparr>))"

definition call_db_collections :: "'w client \<Rightarrow> 'w world \<Rightarrow> string iterator \<times> 'w world" where
  "call_db_collections cl w =
     (case db_collections cl (store w) of
        (it, s) \<Rightarrow> (it, \<lparr>store = s, calls = calls w @ [DbCollections]\<rparr>))"

definition call_document_get ::
  "'w client \<Rightarrow> string \<Rightarrow> string \<Rightarrow> 'w world \<Rightarrow> (exn + DocumentSnapshot) \<times> 'w world" where
  "call_document_get cl c i w =
     (case document_get cl c i (store w) of
        (r, s) \<Rightarrow> (r, \<lparr>store = s, calls = calls w @ [DocumentGet c i]\<rparr>))"

definition call_document_collections ::
  "'w client \<Rightarrow> string \<Rightarrow> string \<Rightarrow> 'w world \<Rightarrow> string iterator \<times> 'w world" where
  "call_document_collections cl c i w =
     (case document_collections cl c i (store w) of
        (it, s) \<Rightarrow> (it, \<lparr>store = s, calls = calls w @ [DocumentCollections c i]\<rparr>))"

section \<open>The five tools\<close>

text \<open>
  Each tool reads the module global \<^verbatim>\<open>db\<close> (here the first argument) and returns its
  payload together with the world after its store calls. The result type \<open>exn + payload\<close>
  leaves room for an exception that crosses the tool boundary (\<open>Inl\<close>).
\<close>

text \<open>The loop of \<^verbatim>\<open>query_firestore_collection\<close> over the stream (lines 94 to 98).\<close>

fun collect_documents :: "DocumentSnapshot iterator \<Rightarrow> pydict list \<Rightarrow> exn + pydict list" where
  "collect_documents Stop documents = Inr documents"
| "collect_documents (Raise e) documents = Inl e"
| "collect_documents (Yield doc rest) documents =
     (let doc_data = to_dict doc in
      if truthy doc_data
      then collect_documents rest
             (documents @ [AList.update ''id'' (PStr (doc_id doc)) (the doc_data)])
      else collect_documents rest documents)"

definition query_firestore_collection ::
  "'w client option \<Rightarrow> string \<Rightarrow> int \<Rightarrow> 'w world \<Rightarrow> (exn + pydict list) \<times> 'w world" where
  "query_firestore_collection db collection_name limit w =
     (case db of
        None \<Rightarrow>
          (Inr [[(''error'',
                  PStr ''Firestore not initialized. Check server logs and serviceAccountKey.json.'')]],
           w)
      | Some cl \<Rightarrow>
          (case call_limit_stream cl collection_name limit w of
             (docs_ref, w') \<Rightarrow>
               (try_except (collect_documents docs_ref [])
                  (\<lambda>e. [[(''error'',
                           PStr (''Failed to query collection '' @ quoted collection_name
                                 @ '': '' @ str e))]]),
                w')))"

definition add_document_to_firestore ::
  "'w client option \<Rightarrow> string \<Rightarrow> pydict \<Rightarrow> 'w world \<Rightarrow> (exn + pydict) \<times> 'w world" where
  "add_document_to_firestore db collection_name document_data w =
     (case db of
        None \<Rightarrow>
          (Inr [(''success'', PBool False),
                (''error'',
                 PStr ''Firestore not initialized. Check server logs and serviceAccountKey.json.'')],
           w)
      | Some cl \<Rightarrow>
          (case call_collection_add cl collection_name document_data w of
             (r, w') \<Rightarrow>
               (try_except
                  (case r of
                     Inl e \<Rightarrow> Inl e
                   | Inr doc_ref_id \<Rightarrow>
                       Inr [(''success'', PBool True),
                            (''id'', PStr doc_ref_id),
                            (''message'',
                             PStr (''Document added to '' @ quoted collection_name))])
                  (\<lambda>e. [(''success'', PBool False),
                          (''error'',
                           PStr (''Failed to add document to '' @ quoted collection_name
                                 @ '': '' @ str e))]),
                w')))"

text \<open>
  The loops of \<^verbatim>\<open>list_firestore_collections\<close> (lines 149, 150) and of
  \<^verbatim>\<open>list_document_subcollections\<close> (lines 223, 224): the same body.
\<close>

fun collect_ids :: "string iterator \<Rightarrow> pydict list \<Rightarrow> exn + pydict list" where
  "collect_ids Stop collections_list = Inr collections_list"
| "collect_ids (Raise e) collections_list = Inl e"
| "collect_ids (Yield coll_ref_id rest) collections_list =
     collect_ids rest (collections_list @ [[(''id'', PStr coll_ref_id)]])"

definition list_firestore_collections ::
  "'w client option \<Rightarrow> 'w world \<Rightarrow> (exn + pydict list) \<times> 'w world" where
  "list_firestore_collections db w =
     (case db of
        None \<Rightarrow> (Inr [[(''error'', PStr ''Firestore not initialized. Check server logs.'')]], w)
      | Some cl \<Rightarrow>
          (case call_db_collections cl w of
             (colls, w') \<Rightarrow>
               (try_except (collect_ids colls [])
                  (\<lambda>e. [[(''error'', PStr (''Failed to list collections: '' @ str e))]]),
                w')))"

definition get_firestore_document ::
  "'w client option \<Rightarrow> string \<Rightarrow> string \<Rightarrow> 'w world \<Rightarrow> (exn + pydict) \<times> 'w world" where
  "get_firestore_document db collection_name document_id w =
     (case db of
        None \<Rightarrow> (Inr [(''error'', PStr ''Firestore not initialized. Check server logs.'')], w)
      | Some cl \<Rightarrow>
          (case call_document_get cl collection_name document_id w of
             (r, w') \<Rightarrow>
               (try_except
                  (case r of
                     Inl e \<Rightarrow> Inl e
                   | Inr doc \<Rightarrow>
                       if doc_exists doc then
                         (let doc_data = to_dict doc in
                          if truthy doc_data
                          then Inr (AList.update ''id'' (PStr (doc_id doc)) (the doc_data))
                          else Inr [(''id'', PStr (doc_id doc)),
                                    (''data'', PNone),
                                    (''message'', PStr ''Document exists but contains no data.'')])
                       else
                         Inr [(''error'',
                               PStr (''Document '' @ quoted document_id @ '' not found in ''
                                     @ quoted collection_name @ ''.''))])
                  (\<lambda>e. [(''error'',
                          PStr (''Failed to get document '' @ quoted document_id @ '' from ''
                                @ quoted collection_name @ '': '' @ str e))]),
                w')))"

definition list_document_subcollections ::
  "'w client option \<Rightarrow> string \<Rightarrow> string \<Rightarrow> 'w world \<Rightarrow> (exn + pydict list) \<times> 'w world" where
  "list_document_subcollections db collection_name document_id w =
     (case db of
        None \<Rightarrow> (Inr [[(''error'', PStr ''Firestore not initialized. Check server logs.'')]], w)
      | Some cl \<Rightarrow>
          (let handler = (\<lambda>e. [[(''error'',
                                  PStr (''Failed to list subcollections for ''
                                        @ quoted document_id @ '': '' @ str e))]])
           in case call_document_get cl collection_name document_id w of
             (r, w1) \<Rightarrow>
               (case r of
                  Inl e \<Rightarrow> (try_except (Inl e) handler, w1)
                | Inr doc_snapshot \<Rightarrow>
                    if \<not> doc_exists doc_snapshot then
                      (try_except
                         (Inr [[(''error'',
                                 PStr (''Document '' @ quoted document_id @ '' not found in ''
                                       @ quoted collection_name @ ''.''))]])
                         handler,
                       w1)
                    else
                      (case call_document_collections cl collection_name document_id w1 of
                         (subs, w2) \<Rightarrow> (try_except (collect_ids subs []) handler, w2)))))"

section \<open>Initialization\<close>

text \<open>
  What \<^verbatim>\<open>firebase_lifespan\<close> reads from its surroundings: the two environment variables,
  the directory of the module file, \<^verbatim>\<open>os.path.exists\<close>, and the three calls into the
  Firebase Admin SDK (\<^verbatim>\<open>credentials.Certificate\<close>, \<^verbatim>\<open>firebase_admin.initialize_app\<close>,
  \<^verbatim>\<open>firestore.client\<close>), each of which may raise; \<open>apps\<close> is the truth value of
  \<^verbatim>\<open>firebase_admin._apps\<close>.
\<close>

record ('w, 'cred) environment =
  SERVICE_ACCOUNT_KEY_PATH :: "string option"
  FIREBASE_STORAGE_BUCKET :: "string option"
  module_dirname :: string
  path_exists :: "string \<Rightarrow> bool"
  Certificate :: "string \<Rightarrow> exn + 'cred"
  apps :: bool
  initialize_app :: "'cred \<Rightarrow> exn + unit"
  firestore_client :: "exn + 'w client"

text \<open>The two module globals.\<close>

record 'w globals =
  db :: "'w client option"
  firebase_storage_bucket_name :: "string option"

definition module_globals :: "'w globals" where
  "module_globals = \<lparr>db = None, firebase_storage_bucket_name = None\<rparr>"

text \<open>\<^verbatim>\<open>os.path.join\<close> of two components (POSIX).\<close>

definition os_path_join :: "string \<Rightarrow> string \<Rightarrow> string" where
  "os_path_join a b =
     (if b \<noteq> [] \<and> hd b = CHR ''/'' then b
      else if a = [] \<or> last a = CHR ''/'' then a @ b
      else a @ ''/'' @ b)"

text \<open>
  How entering the context manager ends: the generator reaches a \<^verbatim>\<open>yield\<close> (the server
  starts serving) or an exception leaves the generator.
\<close>

datatype 'w entered = Yielded "'w globals" | Raised exn "'w globals"

text \<open>The body of the \<^verbatim>\<open>try\<close> up to its \<^verbatim>\<open>yield\<close> (lines 39 to 46).\<close>

definition obtain_client ::
  "('w, 'cred) environment \<Rightarrow> string \<Rightarrow> 'w globals \<Rightarrow> exn + 'w globals" where
  "obtain_client env effective_service_account_path g =
     (case Certificate env effective_service_account_path of
        Inl e \<Rightarrow> Inl e
      | Inr cred \<Rightarrow>
          (case (if \<not> apps env then initialize_app env cred else Inr ()) of
             Inl e \<Rightarrow> Inl e
           | Inr u \<Rightarrow>
               (case firestore_client env of
                  Inl e \<Rightarrow> Inl e
                | Inr c \<Rightarrow> Inr (g\<lparr>db := Some c\<rparr>))))"

text \<open>The path tried: the environment variable, or the file beside the module (lines 24 to 26).\<close>

definition effective_service_account_path :: "('w, 'cred) environment \<Rightarrow> string" where
  "effective_service_account_path env =
     (case SERVICE_ACCOUNT_KEY_PATH env of
        None \<Rightarrow> os_path_join (module_dirname env) ''serviceAccountKey.json''
      | Some p \<Rightarrow>
          if p = [] then os_path_join (module_dirname env) ''serviceAccountKey.json''
          else p)"

definition firebase_lifespan :: "('w, 'cred) environment \<Rightarrow> 'w globals \<Rightarrow> 'w entered" where
  "firebase_lifespan env g0 =
     (let g = g0\<lparr>firebase_storage_bucket_name := FIREBASE_STORAGE_BUCKET env\<rparr>
      in if path_exists env (effective_service_account_path env) then
           (case obtain_client env (effective_service_account_path env) g of
              Inr g' \<Rightarrow> Yielded g'
            | Inl e \<Rightarrow> Yielded g)
         else Yielded g)"

section \<open>Serving tool calls\<close>

text \<open>
  The transport calls the tools by name. None of the tools assigns a module global, so a
  call returns the globals it was given.
\<close>

datatype request =
    QueryFirestoreCollection string int
  | AddDocumentToFirestore string pydict
  | ListFirestoreCollections
  | GetFirestoreDocument string string
  | ListDocumentSubcollections string string

datatype response = Documents "pydict list" | Document pydict

definition call_tool ::
  "'w globals \<Rightarrow> request \<Rightarrow> 'w world \<Rightarrow> (exn + response) \<times> 'w globals \<times> 'w world" where
  "call_tool g rq w =
     (case rq of
        QueryFirestoreCollection c n \<Rightarrow>
          (case query_firestore_collection (db g) c n w of
             (r, w') \<Rightarrow> (map_sum id Documents r, g, w'))
      | AddDocumentToFirestore c d \<Rightarrow>
          (case add_document_to_firestore (db g) c d w of
             (r, w') \<Rightarrow> (map_sum id Document r, g, w'))
      | ListFirestoreCollections \<Rightarrow>
          (case list_firestore_collections (db g) w of
             (r, w') \<Rightarrow> (map_sum id Documents r, g, w'))
      | GetFirestoreDocument c i \<Rightarrow>
          (case get_firestore_document (db g) c i w of
             (r, w') \<Rightarrow> (map_sum id Document r, g, w'))
      | ListDocumentSubcollections c i \<Rightarrow>
          (case list_document_subcollections (db g) c i w of
             (r, w') \<Rightarrow> (map_sum id Documents r, g, w')))"

fun serve ::
  "'w globals \<Rightarrow> request list \<Rightarrow> 'w world \<Rightarrow> (exn + response) list \<times> 'w globals \<times> 'w world" where
  "serve g [] w = ([], g, w)"
| "serve g (rq # rqs) w =
     (case call_tool g rq w of
        (r, g', w') \<Rightarrow> (case serve g' rqs w' of (rs, g'', w'') \<Rightarrow> (r # rs, g'', w'')))"

section \<open>Two implementations of the client\<close>

text \<open>
  Modelled from the spec: the document store collaborator, which is a library outside the
  repository. The spec gives its capability set (section 6) and says that \<open>limit\<close> bounds the
  number of documents fetched (section 4.2). This in-memory store follows that: top-level
  collections hold documents in iteration order, a document may have subcollections, and
  added documents take their identifiers from a supply. The theorems below are about any
  client; this one runs the tools on concrete inputs.
\<close>

record memory =
  mem_collections :: "(string \<times> (string \<times> pydict) list) list"
  mem_subcollections :: "((string \<times> string) \<times> string list) list"
  mem_new_ids :: "string list"

definition mem_documents :: "memory \<Rightarrow> string \<Rightarrow> (string \<times> pydict) list" where
  "mem_documents s c = (case map_of (mem_collections s) c of None \<Rightarrow> [] | Some ds \<Rightarrow> ds)"

definition mem_snapshot :: "string \<times> pydict \<Rightarrow> DocumentSnapshot" where
  "mem_snapshot p = \<lparr>doc_id = fst p, doc_exists = True, to_dict = Some (snd p)\<rparr>"

definition mem_client :: "memory client" where
  "mem_client =
     \<lparr>limit_stream = (\<lambda>c n s.
        (iterator_of (map mem_snapshot (take (nat n) (mem_documents s c))), s)),
      collection_add = (\<lambda>c d s.
        case mem_new_ids s of
          [] \<Rightarrow> (Inl (Exception ''no identifier available''), s)
        | i # ids \<Rightarrow>
            (Inr i,
             s\<lparr>mem_collections :=
                  AList.update c (AList.update i d (mem_documents s c)) (mem_collections s),
               mem_new_ids := ids\<rparr>)),
      db_collections = (\<lambda>s. (iterator_of (map fst (mem_collections s)), s)),
      document_get = (\<lambda>c i s.
        case map_of (mem_documents s c) i of
          None \<Rightarrow> (Inr \<lparr>doc_id = i, doc_exists = False, to_dict = None\<rparr>, s)
        | Some d \<Rightarrow> (Inr \<lparr>doc_id = i, doc_exists = True, to_dict = Some d\<rparr>, s)),
      document_collections = (\<lambda>c i s.
        (iterator_of (case map_of (mem_subcollections s) (c, i) of None \<Rightarrow> [] | Some ns \<Rightarrow> ns),
         s))\<rparr>"

text \<open>A client whose every call raises the given exception (a network failure).\<close>

definition failing_client :: "exn \<Rightarrow> unit client" where
  "failing_client e =
     \<lparr>limit_stream = (\<lambda>c n s. (Raise e, s)),
      collection_add = (\<lambda>c d s. (Inl e, s)),
      db_collections = (\<lambda>s. (Raise e, s)),
      document_get = (\<lambda>c i s. (Inl e, s)),
      document_collections = (\<lambda>c i s. (Raise e, s))\<rparr>"

text \<open>A client that finds the parent document and fails when its subcollections are listed.\<close>

definition failing_subcollections_client :: "exn \<Rightarrow> unit client" where
  "failing_subcollections_client e =
     (failing_client e)
       \<lparr>document_get := (\<lambda>c i s. (Inr \<lparr>doc_id = i, doc_exists = True, to_dict = Some []\<rparr>, s))\<rparr>"

section \<open>Concrete stores and environments\<close>

definition empty_memory :: memory where
  "empty_memory = \<lparr>mem_collections = [], mem_subcollections = [], mem_new_ids = [''n1'']\<rparr>"

text \<open>One collection with one document that has no fields and no subcollections.\<close>

definition bare_memory :: memory where
  "bare_memory =
     \<lparr>mem_collections = [(''users'', [(''u1'', [])])],
      mem_subcollections = [],
      mem_new_ids = [''n1'']\<rparr>"

text \<open>Two documents with fields; the first stores a field named \<^verbatim>\<open>id\<close> of its own.\<close>

definition users_memory :: memory where
  "users_memory =
     \<lparr>mem_collections =
        [(''users'',
          [(''u1'', [(''id'', PInt 7), (''name'', PStr ''Ada'')]),
           (''u2'', [(''name'', PStr ''Bob'')])])],
      mem_subcollections = [((''users'', ''u1''), [''orders''])],
      mem_new_ids = [''n1'']\<rparr>"

text \<open>A store with no identifier left to assign: adding a document raises, reading does not.\<close>

definition exhausted_memory :: memory where
  "exhausted_memory =
     \<lparr>mem_collections = [(''users'', [(''u1'', [(''name'', PStr ''Ada'')])])],
      mem_subcollections = [],
      mem_new_ids = []\<rparr>"

definition fresh :: "'w \<Rightarrow> 'w world" where
  "fresh s = \<lparr>store = s, calls = []\<rparr>"

text \<open>
  Three environments: no key file; a key file that does not parse; a key file that
  parses, with the SDK not yet initialized.
\<close>

definition no_key_file :: "(memory, unit) environment" where
  "no_key_file =
     \<lparr>SERVICE_ACCOUNT_KEY_PATH = None,
      FIREBASE_STORAGE_BUCKET = None,
      module_dirname = ''/srv/app'',
      path_exists = (\<lambda>p. False),
      Certificate = (\<lambda>p. Inr ()),
      apps = False,
      initialize_app = (\<lambda>c. Inr ()),
      firestore_client = Inr mem_client\<rparr>"

definition bad_key_file :: "(memory, unit) environment" where
  "bad_key_file =
     \<lparr>SERVICE_ACCOUNT_KEY_PATH = Some ''/etc/key.json'',
      FIREBASE_STORAGE_BUCKET = Some ''bucket'',
      module_dirname = ''/srv/app'',
      path_exists = (\<lambda>p. p = ''/etc/key.json''),
      Certificate = (\<lambda>p. Inl (Exception ''Invalid service account certificate'')),
      apps = False,
      initialize_app = (\<lambda>c. Inr ()),
      firestore_client = Inr mem_client\<rparr>"

definition good_key_file :: "(memory, unit) environment" where
  "good_key_file =
     \<lparr>SERVICE_ACCOUNT_KEY_PATH = Some [],
      FIREBASE_STORAGE_BUCKET = None,
      module_dirname = ''/srv/app'',
      path_exists = (\<lambda>p. p = ''/srv/app/serviceAccountKey.json''),
      Certificate = (\<lambda>p. Inr ()),
      apps = False,
      initialize_app = (\<lambda>c. Inr ()),
      firestore_client = Inr mem_client\<rparr>"

section \<open>Properties of the loops and of the messages\<close>

lemma collect_documents_eq:
  "collect_documents it acc =
     (case raised it of
        Some e \<Rightarrow> Inl e
      | None \<Rightarrow>
          Inr (acc @ map (\<lambda>doc. AList.update ''id'' (PStr (doc_id doc)) (the (to_dict doc)))
                       (filter (\<lambda>doc. truthy (to_dict doc)) (items it))))"
  by (induction it arbitrary: acc) (simp_all add: Let_def split: option.splits)

lemma collect_ids_eq:
  "collect_ids it acc =
     (case raised it of
        Some e \<Rightarrow> Inl e
      | None \<Rightarrow> Inr (acc @ map (\<lambda>n. [(''id'', PStr n)]) (items it)))"
  by (induction it arbitrary: acc) (simp_all split: option.splits)

lemma items_iterator_of: "items (iterator_of xs) = xs"
  by (induction xs) simp_all

lemma raised_iterator_of: "raised (iterator_of xs) = None"
  by (induction xs) simp_all

lemma sublist_quoted: "sublist s (pre @ quoted s @ post)"
proof -
  have "pre @ quoted s @ post = (pre @ [CHR 0x27]) @ s @ ([CHR 0x27] @ post)"
    by (simp add: quoted_def)
  then show ?thesis
    by (simp only: sublist_appendI)
qed

lemma sublist_later: "sublist s m \<Longrightarrow> sublist s (pre @ m)"
proof -
  assume "sublist s m"
  then obtain ps ss where "m = ps @ s @ ss"
    by (auto simp: sublist_def)
  then have "pre @ m = (pre @ ps) @ s @ ss"
    by simp
  then show ?thesis
    by (simp only: sublist_appendI)
qed

lemma id_merged: "map_of (AList.update ''id'' v d) ''id'' = Some v"
  by (simp add: update_conv')

lemma sublist_later2: "sublist s m \<Longrightarrow> sublist s (p1 @ p2 @ m)"
  by (rule sublist_later, rule sublist_later)

lemma merged_is_no_error: "AList.update ''id'' v d \<noteq> [(''error'', x)]"
proof
  assume "AList.update ''id'' v d = [(''error'', x)]"
  then have "map_of (AList.update ''id'' v d) ''id'' = map_of [(''error'', x)] ''id''"
    by simp
  then show False
    by (simp add: id_merged)
qed

lemma try_except_returns: "\<exists>v. try_except body handler = Inr v"
  by (cases body) (simp_all add: try_except_def)

lemma mentions_long:
  "sublist ''Firestore not initialized''
     ''Firestore not initialized. Check server logs and serviceAccountKey.json.''"
  by code_simp

lemma mentions_short:
  "sublist ''Firestore not initialized'' ''Firestore not initialized. Check server logs.''"
  by code_simp

section \<open>The handle is unset\<close>

text \<open>
  C1. While the Store Handle is unset, each of the five tools returns its error payload,
  whose message mentions that Firestore is not initialized, and makes no store call: the
  world, with its record of calls, comes back as it was.
\<close>

theorem unset_handle_no_store_call:
  "query_firestore_collection None collection_name limit w =
     (Inr [[(''error'',
             PStr ''Firestore not initialized. Check server logs and serviceAccountKey.json.'')]],
      w)
   \<and> add_document_to_firestore None collection_name document_data w =
     (Inr [(''success'', PBool False),
           (''error'',
            PStr ''Firestore not initialized. Check server logs and serviceAccountKey.json.'')],
      w)
   \<and> list_firestore_collections None w =
     (Inr [[(''error'', PStr ''Firestore not initialized. Check server logs.'')]], w)
   \<and> get_firestore_document None collection_name document_id w =
     (Inr [(''error'', PStr ''Firestore not initialized. Check server logs.'')], w)
   \<and> list_document_subcollections None collection_name document_id w =
     (Inr [[(''error'', PStr ''Firestore not initialized. Check server logs.'')]], w)
   \<and> sublist ''Firestore not initialized''
        ''Firestore not initialized. Check server logs and serviceAccountKey.json.''
   \<and> sublist ''Firestore not initialized'' ''Firestore not initialized. Check server logs.''"
  unfolding query_firestore_collection_def add_document_to_firestore_def
    list_firestore_collections_def get_firestore_document_def
    list_document_subcollections_def
  using mentions_long mentions_short by simp

section \<open>Documents that do not exist, and documents without fields\<close>

text \<open>
  C4. When the store answers that the document does not exist, \<open>get_firestore_document\<close>
  returns (it does not raise) an error mapping whose message contains the collection name
  and the document id.
\<close>

theorem get_missing_document:
  assumes "document_get cl collection_name document_id (store w) = (Inr doc, s)"
    and "\<not> doc_exists doc"
  shows "\<exists>m. get_firestore_document (Some cl) collection_name document_id w =
           (Inr [(''error'', PStr m)],
            \<lparr>store = s, calls = calls w @ [DocumentGet collection_name document_id]\<rparr>)
         \<and> m = ''Document '' @ quoted document_id @ '' not found in ''
                @ quoted collection_name @ ''.''
         \<and> sublist collection_name m \<and> sublist document_id m"
proof -
  let ?m = "''Document '' @ quoted document_id @ '' not found in ''
              @ quoted collection_name @ ''.''"
  have 1: "sublist document_id ?m"
    by (rule sublist_quoted)
  have "sublist collection_name ('' not found in '' @ quoted collection_name @ ''.'')"
    by (rule sublist_quoted)
  then have 2: "sublist collection_name ?m"
    by (rule sublist_later2)
  have "get_firestore_document (Some cl) collection_name document_id w =
          (Inr [(''error'', PStr ?m)],
           \<lparr>store = s, calls = calls w @ [DocumentGet collection_name document_id]\<rparr>)"
    using assms
    by (simp add: get_firestore_document_def call_document_get_def try_except_def)
  with 1 2 show ?thesis by blast
qed

theorem get_missing_document_witness:
  "document_get mem_client ''users'' ''u1'' empty_memory =
     (Inr \<lparr>doc_id = ''u1'', doc_exists = False, to_dict = None\<rparr>, empty_memory)
   \<and> fst (get_firestore_document (Some mem_client) ''users'' ''u1'' (fresh empty_memory)) =
       Inr [(''error'',
             PStr (''Document '' @ quoted ''u1'' @ '' not found in '' @ quoted ''users''
                   @ ''.''))]
   \<and> sublist ''users''
        (''Document '' @ quoted ''u1'' @ '' not found in '' @ quoted ''users'' @ ''.'')
   \<and> sublist ''u1''
        (''Document '' @ quoted ''u1'' @ '' not found in '' @ quoted ''users'' @ ''.'')"
proof -
  have h: "document_get mem_client ''users'' ''u1'' (store (fresh empty_memory)) =
             (Inr \<lparr>doc_id = ''u1'', doc_exists = False, to_dict = None\<rparr>, empty_memory)"
    by (simp add: mem_client_def mem_documents_def empty_memory_def fresh_def)
  have n: "\<not> doc_exists \<lparr>doc_id = ''u1'', doc_exists = False, to_dict = None\<rparr>"
    by simp
  from get_missing_document [OF h n] h show ?thesis
    by (auto simp: fresh_def)
qed

text \<open>
  C10. When the document exists and its field mapping is empty, \<open>get_firestore_document\<close>
  returns the keys \<^verbatim>\<open>id\<close> (the snapshot's identifier), \<^verbatim>\<open>data\<close> (\<^verbatim>\<open>None\<close>) and \<^verbatim>\<open>message\<close>,
  and no \<^verbatim>\<open>error\<close> key.
\<close>

theorem get_document_without_fields:
  assumes "document_get cl collection_name document_id (store w) = (Inr doc, s)"
    and "doc_exists doc"
    and "to_dict doc = Some []"
  shows "\<exists>payload. get_firestore_document (Some cl) collection_name document_id w =
           (Inr payload,
            \<lparr>store = s, calls = calls w @ [DocumentGet collection_name document_id]\<rparr>)
         \<and> payload = [(''id'', PStr (doc_id doc)), (''data'', PNone),
                       (''message'', PStr ''Document exists but contains no data.'')]
         \<and> map_of payload ''id'' = Some (PStr (doc_id doc))
         \<and> map_of payload ''data'' = Some PNone
         \<and> map_of payload ''message'' \<noteq> None
         \<and> map_of payload ''error'' = None"
  using assms
  by (simp add: get_firestore_document_def call_document_get_def try_except_def)

theorem get_document_without_fields_witness:
  "document_get mem_client ''users'' ''u1'' bare_memory =
     (Inr \<lparr>doc_id = ''u1'', doc_exists = True, to_dict = Some []\<rparr>, bare_memory)
   \<and> fst (get_firestore_document (Some mem_client) ''users'' ''u1'' (fresh bare_memory)) =
       Inr [(''id'', PStr ''u1''), (''data'', PNone),
            (''message'', PStr ''Document exists but contains no data.'')]"
proof -
  have h: "document_get mem_client ''users'' ''u1'' (store (fresh bare_memory)) =
             (Inr \<lparr>doc_id = ''u1'', doc_exists = True, to_dict = Some []\<rparr>, bare_memory)"
    by (simp add: mem_client_def mem_documents_def bare_memory_def fresh_def)
  from get_document_without_fields [OF h] h show ?thesis
    by (auto simp: fresh_def)
qed

text \<open>
  C5. \<open>list_document_subcollections\<close> with the handle set: when the parent document does
  not exist the result is one error mapping and the only store call made is the existence
  probe; when the parent exists and has no subcollections the result is the empty list,
  after the probe and the enumeration. The two results differ.
\<close>

theorem subcollections_missing_or_none:
  assumes "document_get cl collection_name document_id (store w) = (Inr doc, s)"
    and "\<not> doc_exists doc"
    and "document_get cl' collection_name' document_id' (store w') = (Inr doc', s1)"
    and "doc_exists doc'"
    and "document_collections cl' collection_name' document_id' s1 = (Stop, s2)"
  shows "list_document_subcollections (Some cl) collection_name document_id w =
           (Inr [[(''error'', PStr (''Document '' @ quoted document_id @ '' not found in ''
                                    @ quoted collection_name @ ''.''))]],
            \<lparr>store = s, calls = calls w @ [DocumentGet collection_name document_id]\<rparr>)
         \<and> list_document_subcollections (Some cl') collection_name' document_id' w' =
           (Inr [],
            \<lparr>store = s2,
             calls = calls w' @ [DocumentGet collection_name' document_id',
                                 DocumentCollections collection_name' document_id']\<rparr>)
         \<and> fst (list_document_subcollections (Some cl) collection_name document_id w)
           \<noteq> fst (list_document_subcollections (Some cl') collection_name' document_id' w')"
  using assms
  by (simp add: list_document_subcollections_def call_document_get_def
      call_document_collections_def try_except_def)

theorem subcollections_missing_or_none_witness:
  "list_document_subcollections (Some mem_client) ''users'' ''u1'' (fresh empty_memory) =
     (Inr [[(''error'', PStr (''Document '' @ quoted ''u1'' @ '' not found in ''
                              @ quoted ''users'' @ ''.''))]],
      \<lparr>store = empty_memory, calls = [DocumentGet ''users'' ''u1'']\<rparr>)
   \<and> list_document_subcollections (Some mem_client) ''users'' ''u1'' (fresh bare_memory) =
     (Inr [],
      \<lparr>store = bare_memory,
       calls = [DocumentGet ''users'' ''u1'', DocumentCollections ''users'' ''u1'']\<rparr>)"
proof -
  have a: "document_get mem_client ''users'' ''u1'' (store (fresh empty_memory)) =
             (Inr \<lparr>doc_id = ''u1'', doc_exists = False, to_dict = None\<rparr>, empty_memory)"
    by (simp add: mem_client_def mem_documents_def empty_memory_def fresh_def)
  have b: "\<not> doc_exists \<lparr>doc_id = ''u1'', doc_exists = False, to_dict = None\<rparr>"
    by simp
  have c: "document_get mem_client ''users'' ''u1'' (store (fresh bare_memory)) =
             (Inr \<lparr>doc_id = ''u1'', doc_exists = True, to_dict = Some []\<rparr>, bare_memory)"
    by (simp add: mem_client_def mem_documents_def bare_memory_def fresh_def)
  have d: "doc_exists \<lparr>doc_id = ''u1'', doc_exists = True, to_dict = Some []\<rparr>"
    by simp
  have e: "document_collections mem_client ''users'' ''u1'' bare_memory = (Stop, bare_memory)"
    by (simp add: mem_client_def bare_memory_def)
  from subcollections_missing_or_none [OF a b c d e] show ?thesis
    by (simp add: fresh_def)
qed

section \<open>Empty listings\<close>

text \<open>
  C7. With the handle set and zero items in the store (the iterator stops at once; for
  \<open>list_document_subcollections\<close> the parent exists), each listing tool returns the empty
  list. The error payload, one mapping holding only the \<^verbatim>\<open>error\<close> key, is returned exactly
  when the handle is unset or the store call raises (or, for subcollections, the parent
  is missing). A stored document may have a field named \<^verbatim>\<open>error\<close>; the mapping returned for
  it also holds \<^verbatim>\<open>id\<close>, so it is not that payload.
\<close>

theorem empty_listing_is_not_an_error:
  assumes "limit_stream cl collection_name limit (store wa) = (Stop, s1)"
    and "db_collections cl (store wb) = (Stop, s2)"
    and "document_get cl collection_name' document_id (store wc) = (Inr doc, s3)"
    and "doc_exists doc"
    and "document_collections cl collection_name' document_id s3 = (Stop, s4)"
  shows "fst (query_firestore_collection (Some cl) collection_name limit wa) = Inr []
       \<and> fst (list_firestore_collections (Some cl) wb) = Inr []
       \<and> fst (list_document_subcollections (Some cl) collection_name' document_id wc) = Inr []
       \<and> ((\<exists>m. fst (query_firestore_collection db' c' n' w') = Inr [[(''error'', PStr m)]])
            \<longleftrightarrow> (case db' of
                   None \<Rightarrow> True
                 | Some cl' \<Rightarrow> raised (fst (limit_stream cl' c' n' (store w'))) \<noteq> None))
       \<and> ((\<exists>m. fst (list_firestore_collections db' w') = Inr [[(''error'', PStr m)]])
            \<longleftrightarrow> (case db' of
                   None \<Rightarrow> True
                 | Some cl' \<Rightarrow> raised (fst (db_collections cl' (store w'))) \<noteq> None))
       \<and> ((\<exists>m. fst (list_document_subcollections db' c' i' w') = Inr [[(''error'', PStr m)]])
            \<longleftrightarrow> (case db' of
                   None \<Rightarrow> True
                 | Some cl' \<Rightarrow>
                     (case document_get cl' c' i' (store w') of
                        (Inl e, s) \<Rightarrow> True
                      | (Inr parent, s) \<Rightarrow>
                          \<not> doc_exists parent
                          \<or> raised (fst (document_collections cl' c' i' s)) \<noteq> None)))"
proof -
  have q0: "fst (query_firestore_collection (Some cl) collection_name limit wa) = Inr []"
    using assms(1)
    by (simp add: query_firestore_collection_def call_limit_stream_def try_except_def)
  have l0: "fst (list_firestore_collections (Some cl) wb) = Inr []"
    using assms(2)
    by (simp add: list_firestore_collections_def call_db_collections_def try_except_def)
  have s0: "fst (list_document_subcollections (Some cl) collection_name' document_id wc) = Inr []"
    using assms(3,4,5)
    by (simp add: list_document_subcollections_def call_document_get_def
        call_document_collections_def try_except_def)
  have q1: "(\<exists>m. fst (query_firestore_collection db' c' n' w') = Inr [[(''error'', PStr m)]])
            \<longleftrightarrow> (case db' of
                   None \<Rightarrow> True
                 | Some cl' \<Rightarrow> raised (fst (limit_stream cl' c' n' (store w'))) \<noteq> None)"
    by (auto simp: query_firestore_collection_def call_limit_stream_def try_except_def
        collect_documents_eq map_eq_Cons_conv merged_is_no_error
        split: option.splits prod.splits)
  have l1: "(\<exists>m. fst (list_firestore_collections db' w') = Inr [[(''error'', PStr m)]])
            \<longleftrightarrow> (case db' of
                   None \<Rightarrow> True
                 | Some cl' \<Rightarrow> raised (fst (db_collections cl' (store w'))) \<noteq> None)"
    by (auto simp: list_firestore_collections_def call_db_collections_def try_except_def
        collect_ids_eq map_eq_Cons_conv
        split: option.splits prod.splits)
  have s1: "(\<exists>m. fst (list_document_subcollections db' c' i' w') = Inr [[(''error'', PStr m)]])
            \<longleftrightarrow> (case db' of
                   None \<Rightarrow> True
                 | Some cl' \<Rightarrow>
                     (case document_get cl' c' i' (store w') of
                        (Inl e, s) \<Rightarrow> True
                      | (Inr parent, s) \<Rightarrow>
                          \<not> doc_exists parent
                          \<or> raised (fst (document_collections cl' c' i' s)) \<noteq> None))"
    by (auto simp: list_document_subcollections_def call_document_get_def
        call_document_collections_def try_except_def Let_def
        collect_ids_eq map_eq_Cons_conv
        split: option.splits prod.splits sum.splits)
  from q0 l0 s0 q1 l1 s1 show ?thesis by blast
qed

theorem empty_listing_is_not_an_error_witness:
  "fst (query_firestore_collection (Some mem_client) ''orders'' 50 (fresh bare_memory)) = Inr []
   \<and> fst (list_firestore_collections (Some mem_client)
            (fresh (empty_memory :: memory))) = Inr []
   \<and> fst (list_document_subcollections (Some mem_client) ''users'' ''u1''
            (fresh bare_memory)) = Inr []"
proof -
  have a: "limit_stream mem_client ''orders'' 50 (store (fresh bare_memory)) = (Stop, bare_memory)"
    by (simp add: mem_client_def mem_documents_def bare_memory_def fresh_def)
  have b: "db_collections mem_client (store (fresh empty_memory)) = (Stop, empty_memory)"
    by (simp add: mem_client_def empty_memory_def fresh_def)
  have c: "document_get mem_client ''users'' ''u1'' (store (fresh bare_memory)) =
             (Inr \<lparr>doc_id = ''u1'', doc_exists = True, to_dict = Some []\<rparr>, bare_memory)"
    by (simp add: mem_client_def mem_documents_def bare_memory_def fresh_def)
  have d: "doc_exists \<lparr>doc_id = ''u1'', doc_exists = True, to_dict = Some []\<rparr>"
    by simp
  have e: "document_collections mem_client ''users'' ''u1'' bare_memory = (Stop, bare_memory)"
    by (simp add: mem_client_def bare_memory_def)
  from empty_listing_is_not_an_error [OF a b c d e] show ?thesis
    by blast
qed

section \<open>The merged identifier\<close>

text \<open>
  C8. Every mapping that \<open>query_firestore_collection\<close> returns for a snapshot, and the
  mapping \<open>get_firestore_document\<close> returns for an existing document, has under \<^verbatim>\<open>id\<close> the
  identifier of that snapshot, whatever the stored fields are: a stored field named
  \<^verbatim>\<open>id\<close> is overwritten.
\<close>

theorem merged_id:
  assumes "limit_stream cl collection_name limit (store w) = (docs_ref, s)"
    and "raised docs_ref = None"
    and "document_get cl collection_name' document_id (store w') = (Inr doc, s')"
    and "doc_exists doc"
  shows "\<exists>documents payload.
           fst (query_firestore_collection (Some cl) collection_name limit w) = Inr documents
         \<and> list_all2 (\<lambda>snapshot d. map_of d ''id'' = Some (PStr (doc_id snapshot)))
             (filter (\<lambda>snapshot. truthy (to_dict snapshot)) (items docs_ref)) documents
         \<and> fst (get_firestore_document (Some cl) collection_name' document_id w') = Inr payload
         \<and> map_of payload ''id'' = Some (PStr (doc_id doc))"
proof -
  let ?merge = "\<lambda>doc. AList.update ''id'' (PStr (doc_id doc)) (the (to_dict doc))"
  let ?kept = "filter (\<lambda>snapshot. truthy (to_dict snapshot)) (items docs_ref)"
  have q: "fst (query_firestore_collection (Some cl) collection_name limit w) = Inr (map ?merge ?kept)"
    using assms(1,2)
    by (simp add: query_firestore_collection_def call_limit_stream_def try_except_def
        collect_documents_eq)
  have l: "list_all2 (\<lambda>snapshot d. map_of d ''id'' = Some (PStr (doc_id snapshot))) ?kept (map ?merge ?kept)"
    by (simp add: list_all2_map2 list.rel_refl id_merged)
  have g: "\<exists>payload. fst (get_firestore_document (Some cl) collection_name' document_id w') = Inr payload
         \<and> map_of payload ''id'' = Some (PStr (doc_id doc))"
    using assms(3,4)
    by (simp add: get_firestore_document_def call_document_get_def try_except_def Let_def id_merged)
  from q l g show ?thesis by blast
qed

theorem merged_id_witness:
  "(\<exists>documents.
      fst (query_firestore_collection (Some mem_client) ''users'' 2 (fresh users_memory)) =
        Inr documents
      \<and> list_all2 (\<lambda>snapshot d. map_of d ''id'' = Some (PStr (doc_id snapshot)))
          [\<lparr>doc_id = ''u1'', doc_exists = True,
            to_dict = Some [(''id'', PInt 7), (''name'', PStr ''Ada'')]\<rparr>,
           \<lparr>doc_id = ''u2'', doc_exists = True, to_dict = Some [(''name'', PStr ''Bob'')]\<rparr>]
          documents)
   \<and> (\<exists>payload.
        fst (get_firestore_document (Some mem_client) ''users'' ''u1'' (fresh users_memory)) =
          Inr payload
        \<and> map_of payload ''id'' = Some (PStr ''u1''))
   \<and> fst (query_firestore_collection (Some mem_client) ''users'' 2 (fresh users_memory)) =
       Inr [[(''id'', PStr ''u1''), (''name'', PStr ''Ada'')],
            [(''name'', PStr ''Bob''), (''id'', PStr ''u2'')]]
   \<and> fst (get_firestore_document (Some mem_client) ''users'' ''u1'' (fresh users_memory)) =
       Inr [(''id'', PStr ''u1''), (''name'', PStr ''Ada'')]"
proof -
  let ?u1 = "\<lparr>doc_id = ''u1'', doc_exists = True,
              to_dict = Some [(''id'', PInt 7), (''name'', PStr ''Ada'')]\<rparr>"
  let ?u2 = "\<lparr>doc_id = ''u2'', doc_exists = True, to_dict = Some [(''name'', PStr ''Bob'')]\<rparr>"
  have a: "limit_stream mem_client ''users'' 2 (store (fresh users_memory)) =
             (iterator_of [?u1, ?u2], users_memory)"
    by (simp add: mem_client_def mem_documents_def users_memory_def fresh_def mem_snapshot_def)
  have b: "raised (iterator_of [?u1, ?u2]) = None"
    by simp
  have c: "document_get mem_client ''users'' ''u1'' (store (fresh users_memory)) =
             (Inr ?u1, users_memory)"
    by (simp add: mem_client_def mem_documents_def users_memory_def fresh_def)
  have d: "doc_exists ?u1"
    by simp
  have k: "filter (\<lambda>snapshot. truthy (to_dict snapshot)) (items (iterator_of [?u1, ?u2])) =
             [?u1, ?u2]"
    by simp
  have t: "(\<exists>documents.
      fst (query_firestore_collection (Some mem_client) ''users'' 2 (fresh users_memory)) =
        Inr documents
      \<and> list_all2 (\<lambda>snapshot d. map_of d ''id'' = Some (PStr (doc_id snapshot)))
          [?u1, ?u2] documents)
   \<and> (\<exists>payload.
        fst (get_firestore_document (Some mem_client) ''users'' ''u1'' (fresh users_memory)) =
          Inr payload
        \<and> map_of payload ''id'' = Some (PStr ''u1''))"
    using merged_id [OF a b c d] unfolding k by auto
  have q: "fst (query_firestore_collection (Some mem_client) ''users'' 2 (fresh users_memory)) =
     Inr [[(''id'', PStr ''u1''), (''name'', PStr ''Ada'')],
          [(''name'', PStr ''Bob''), (''id'', PStr ''u2'')]]"
    using a by (simp add: query_firestore_collection_def call_limit_stream_def try_except_def)
  have g: "fst (get_firestore_document (Some mem_client) ''users'' ''u1'' (fresh users_memory)) =
     Inr [(''id'', PStr ''u1''), (''name'', PStr ''Ada'')]"
    using c by (simp add: get_firestore_document_def call_document_get_def try_except_def)
  from t q g show ?thesis
    by blast
qed

section \<open>Exceptions of the store\<close>

text \<open>
  C6, as stated: when a store call raises, the error message of every tool includes the
  collection and document identifiers of the call. For \<open>list_document_subcollections\<close> it
  does not: the message names the document and leaves the collection out.
\<close>

theorem store_exception_subcollections_counterexample:
  "fst (list_document_subcollections (Some (failing_client (Exception ''timeout'')))
          ''users'' ''u1'' (fresh ())) =
     Inr [[(''error'',
            PStr (''Failed to list subcollections for '' @ quoted ''u1'' @ '': timeout''))]]
   \<and> \<not> sublist ''users''
          (''Failed to list subcollections for '' @ quoted ''u1'' @ '': timeout'')"
proof -
  have "\<not> sublist ''users''
          (''Failed to list subcollections for '' @ quoted ''u1'' @ '': timeout'')"
    unfolding quoted_def by code_simp
  then show ?thesis
    by (simp add: list_document_subcollections_def call_document_get_def try_except_def
        failing_client_def fresh_def)
qed

text \<open>
  C6, amended. For each tool on its own, whatever exception its store call raises, at the
  call or while its iterator is consumed, the tool returns an error payload and raises
  nothing. The message ends with the text of the exception and names: the collection, for
  \<open>query_firestore_collection\<close> and \<open>add_document_to_firestore\<close>; the document id and the
  collection, for \<open>get_firestore_document\<close>; the document id, for
  \<open>list_document_subcollections\<close> (when the existence probe raises, and when the
  enumeration raises); nothing, for \<open>list_firestore_collections\<close>. Each implication has
  its own client, store state and arguments, so a failure of a single call is covered.
\<close>

theorem store_exception_returned_by_each_tool:
  "(limit_stream cq collection_q limit (store wq) = (docs_ref, sq) \<and> raised docs_ref = Some eq
      \<longrightarrow> query_firestore_collection (Some cq) collection_q limit wq =
            (Inr [[(''error'',
                    PStr (''Failed to query collection '' @ quoted collection_q
                          @ '': '' @ str eq))]],
             \<lparr>store = sq, calls = calls wq @ [LimitStream collection_q limit]\<rparr>)
          \<and> sublist collection_q
                (''Failed to query collection '' @ quoted collection_q @ '': '' @ str eq))
   \<and> (collection_add ca collection_a document_data (store wa) = (Inl ea, sa)
      \<longrightarrow> add_document_to_firestore (Some ca) collection_a document_data wa =
            (Inr [(''success'', PBool False),
                  (''error'',
                   PStr (''Failed to add document to '' @ quoted collection_a
                         @ '': '' @ str ea))],
             \<lparr>store = sa, calls = calls wa @ [CollectionAdd collection_a document_data]\<rparr>)
          \<and> sublist collection_a
                (''Failed to add document to '' @ quoted collection_a @ '': '' @ str ea))
   \<and> (db_collections cl (store wl) = (colls, sl) \<and> raised colls = Some el
      \<longrightarrow> list_firestore_collections (Some cl) wl =
            (Inr [[(''error'', PStr (''Failed to list collections: '' @ str el))]],
             \<lparr>store = sl, calls = calls wl @ [DbCollections]\<rparr>))
   \<and> (document_get cg collection_g document_g (store wg) = (Inl eg, sg)
      \<longrightarrow> get_firestore_document (Some cg) collection_g document_g wg =
            (Inr [(''error'',
                   PStr (''Failed to get document '' @ quoted document_g @ '' from ''
                         @ quoted collection_g @ '': '' @ str eg))],
             \<lparr>store = sg, calls = calls wg @ [DocumentGet collection_g document_g]\<rparr>)
          \<and> sublist document_g
                (''Failed to get document '' @ quoted document_g @ '' from ''
                 @ quoted collection_g @ '': '' @ str eg)
          \<and> sublist collection_g
                (''Failed to get document '' @ quoted document_g @ '' from ''
                 @ quoted collection_g @ '': '' @ str eg))
   \<and> (document_get cp collection_p document_p (store wp) = (Inl ep, sp)
      \<longrightarrow> list_document_subcollections (Some cp) collection_p document_p wp =
            (Inr [[(''error'',
                    PStr (''Failed to list subcollections for '' @ quoted document_p
                          @ '': '' @ str ep))]],
             \<lparr>store = sp, calls = calls wp @ [DocumentGet collection_p document_p]\<rparr>)
          \<and> sublist document_p
                (''Failed to list subcollections for '' @ quoted document_p @ '': '' @ str ep))
   \<and> (document_get cs collection_s document_s (store ws) = (Inr parent, s1)
        \<and> doc_exists parent
        \<and> document_collections cs collection_s document_s s1 = (subs, s2)
        \<and> raised subs = Some es
      \<longrightarrow> list_document_subcollections (Some cs) collection_s document_s ws =
            (Inr [[(''error'',
                    PStr (''Failed to list subcollections for '' @ quoted document_s
                          @ '': '' @ str es))]],
             \<lparr>store = s2,
              calls = calls ws @ [DocumentGet collection_s document_s,
                                  DocumentCollections collection_s document_s]\<rparr>)
          \<and> sublist document_s
                (''Failed to list subcollections for '' @ quoted document_s @ '': '' @ str es))"
proof (intro conjI impI)
  assume "limit_stream cq collection_q limit (store wq) = (docs_ref, sq) \<and> raised docs_ref = Some eq"
  then show "query_firestore_collection (Some cq) collection_q limit wq =
            (Inr [[(''error'',
                    PStr (''Failed to query collection '' @ quoted collection_q
                          @ '': '' @ str eq))]],
             \<lparr>store = sq, calls = calls wq @ [LimitStream collection_q limit]\<rparr>)"
    by (simp add: query_firestore_collection_def call_limit_stream_def try_except_def
        collect_documents_eq)
next
  show "sublist collection_q
          (''Failed to query collection '' @ quoted collection_q @ '': '' @ str eq)"
    by (rule sublist_quoted)
next
  assume "collection_add ca collection_a document_data (store wa) = (Inl ea, sa)"
  then show "add_document_to_firestore (Some ca) collection_a document_data wa =
            (Inr [(''success'', PBool False),
                  (''error'',
                   PStr (''Failed to add document to '' @ quoted collection_a
                         @ '': '' @ str ea))],
             \<lparr>store = sa, calls = calls wa @ [CollectionAdd collection_a document_data]\<rparr>)"
    by (simp add: add_document_to_firestore_def call_collection_add_def try_except_def)
next
  show "sublist collection_a
          (''Failed to add document to '' @ quoted collection_a @ '': '' @ str ea)"
    by (rule sublist_quoted)
next
  assume "db_collections cl (store wl) = (colls, sl) \<and> raised colls = Some el"
  then show "list_firestore_collections (Some cl) wl =
            (Inr [[(''error'', PStr (''Failed to list collections: '' @ str el))]],
             \<lparr>store = sl, calls = calls wl @ [DbCollections]\<rparr>)"
    by (simp add: list_firestore_collections_def call_db_collections_def try_except_def
        collect_ids_eq)
next
  assume "document_get cg collection_g document_g (store wg) = (Inl eg, sg)"
  then show "get_firestore_document (Some cg) collection_g document_g wg =
            (Inr [(''error'',
                   PStr (''Failed to get document '' @ quoted document_g @ '' from ''
                         @ quoted collection_g @ '': '' @ str eg))],
             \<lparr>store = sg, calls = calls wg @ [DocumentGet collection_g document_g]\<rparr>)"
    by (simp add: get_firestore_document_def call_document_get_def try_except_def)
next
  show "sublist document_g
          (''Failed to get document '' @ quoted document_g @ '' from ''
           @ quoted collection_g @ '': '' @ str eg)"
    by (rule sublist_quoted)
next
  have "sublist collection_g ('' from '' @ quoted collection_g @ '': '' @ str eg)"
    by (rule sublist_quoted)
  then show "sublist collection_g
          (''Failed to get document '' @ quoted document_g @ '' from ''
           @ quoted collection_g @ '': '' @ str eg)"
    by (rule sublist_later2)
next
  assume "document_get cp collection_p document_p (store wp) = (Inl ep, sp)"
  then show "list_document_subcollections (Some cp) collection_p document_p wp =
            (Inr [[(''error'',
                    PStr (''Failed to list subcollections for '' @ quoted document_p
                          @ '': '' @ str ep))]],
             \<lparr>store = sp, calls = calls wp @ [DocumentGet collection_p document_p]\<rparr>)"
    by (simp add: list_document_subcollections_def call_document_get_def try_except_def)
next
  show "sublist document_p
          (''Failed to list subcollections for '' @ quoted document_p @ '': '' @ str ep)"
    by (rule sublist_quoted)
next
  assume "document_get cs collection_s document_s (store ws) = (Inr parent, s1)
        \<and> doc_exists parent
        \<and> document_collections cs collection_s document_s s1 = (subs, s2)
        \<and> raised subs = Some es"
  then show "list_document_subcollections (Some cs) collection_s document_s ws =
            (Inr [[(''error'',
                    PStr (''Failed to list subcollections for '' @ quoted document_s
                          @ '': '' @ str es))]],
             \<lparr>store = s2,
              calls = calls ws @ [DocumentGet collection_s document_s,
                                  DocumentCollections collection_s document_s]\<rparr>)"
    by (simp add: list_document_subcollections_def call_document_get_def
        call_document_collections_def try_except_def collect_ids_eq)
next
  show "sublist document_s
          (''Failed to list subcollections for '' @ quoted document_s @ '': '' @ str es)"
    by (rule sublist_quoted)
qed

theorem store_exception_returned_by_each_tool_witness:
  "fst (query_firestore_collection (Some (failing_client (Exception ''timeout'')))
          ''users'' 50 (fresh ())) =
     Inr [[(''error'',
            PStr (''Failed to query collection '' @ quoted ''users'' @ '': timeout''))]]
   \<and> fst (list_firestore_collections (Some (failing_client (Exception ''timeout'')))
            (fresh ())) =
     Inr [[(''error'', PStr ''Failed to list collections: timeout'')]]
   \<and> fst (get_firestore_document (Some (failing_client (Exception ''timeout'')))
            ''users'' ''u1'' (fresh ())) =
     Inr [(''error'',
           PStr (''Failed to get document '' @ quoted ''u1'' @ '' from '' @ quoted ''users''
                 @ '': timeout''))]
   \<and> fst (list_document_subcollections (Some (failing_client (Exception ''timeout'')))
            ''users'' ''u1'' (fresh ())) =
     Inr [[(''error'',
            PStr (''Failed to list subcollections for '' @ quoted ''u1'' @ '': timeout''))]]
   \<and> fst (list_document_subcollections
            (Some (failing_subcollections_client (Exception ''timeout'')))
            ''users'' ''u1'' (fresh ())) =
     Inr [[(''error'',
            PStr (''Failed to list subcollections for '' @ quoted ''u1'' @ '': timeout''))]]
   \<and> fst (add_document_to_firestore (Some mem_client) ''users'' [(''name'', PStr ''Eve'')]
            (fresh exhausted_memory)) =
     Inr [(''success'', PBool False),
          (''error'',
           PStr (''Failed to add document to '' @ quoted ''users''
                 @ '': no identifier available''))]
   \<and> fst (get_firestore_document (Some mem_client) ''users'' ''u1'' (fresh exhausted_memory)) =
     Inr [(''name'', PStr ''Ada''), (''id'', PStr ''u1'')]"
proof -
  let ?e = "Exception ''timeout''"
  let ?f = "failing_client ?e"
  let ?fs = "failing_subcollections_client ?e"
  let ?p = "\<lparr>doc_id = ''u1'', doc_exists = True, to_dict = Some []\<rparr>"
  have q: "limit_stream ?f ''users'' 50 (store (fresh ())) = (Raise ?e, ())
           \<and> raised (Raise ?e :: DocumentSnapshot iterator) = Some ?e"
    by (simp add: failing_client_def)
  have l: "db_collections ?f (store (fresh ())) = (Raise ?e, ())
           \<and> raised (Raise ?e :: string iterator) = Some ?e"
    by (simp add: failing_client_def)
  have g: "document_get ?f ''users'' ''u1'' (store (fresh ())) = (Inl ?e, ())"
    by (simp add: failing_client_def)
  have s: "document_get ?fs ''users'' ''u1'' (store (fresh ())) = (Inr ?p, ())
           \<and> doc_exists ?p
           \<and> document_collections ?fs ''users'' ''u1'' () = (Raise ?e, ())
           \<and> raised (Raise ?e :: string iterator) = Some ?e"
    by (simp add: failing_subcollections_client_def failing_client_def)
  have a: "collection_add mem_client ''users'' [(''name'', PStr ''Eve'')]
             (store (fresh exhausted_memory)) =
             (Inl (Exception ''no identifier available''), exhausted_memory)"
    by (simp add: mem_client_def exhausted_memory_def fresh_def)
  have r: "fst (get_firestore_document (Some mem_client) ''users'' ''u1''
                  (fresh exhausted_memory)) =
             Inr [(''name'', PStr ''Ada''), (''id'', PStr ''u1'')]"
    by (simp add: get_firestore_document_def call_document_get_def try_except_def
        mem_client_def mem_documents_def exhausted_memory_def fresh_def)
  note t = store_exception_returned_by_each_tool
    [of ?f "''users''" 50 "fresh ()" "Raise ?e" "()" ?e
        mem_client "''users''" "[(''name'', PStr ''Eve'')]" "fresh exhausted_memory"
        "Exception ''no identifier available''" exhausted_memory
        ?f "fresh ()" "Raise ?e" "()" ?e
        ?f "''users''" "''u1''" "fresh ()" ?e "()"
        ?f "''users''" "''u1''" "fresh ()" ?e "()"
        ?fs "''users''" "''u1''" "fresh ()" ?p "()" "Raise ?e" "()" ?e]
  from t q l g s a r show ?thesis
    by simp
qed

section \<open>Querying with a limit\<close>

text \<open>
  C2. On a collection of \<open>N \<ge> L\<close> documents, a query with limit \<open>L\<close> is to return exactly
  \<open>L\<close> documents, each with its identifier under \<^verbatim>\<open>id\<close>. The code does not do that for a
  document without fields. Line 96 tests \<^verbatim>\<open>if doc_data:\<close> under the comment
  \<^verbatim>\<open>Ensure doc_data is not None\<close>; the test is also false for the empty mapping, so the
  snapshot is skipped. Here the collection \<^verbatim>\<open>users\<close> holds one document, \<^verbatim>\<open>u1\<close>, without
  fields: the query with limit 1 returns no document, while \<open>get_firestore_document\<close>
  returns a mapping with \<^verbatim>\<open>id\<close> for the same document.
\<close>

theorem query_drops_document_without_fields:
  "mem_documents bare_memory ''users'' = [(''u1'', [])]
   \<and> query_firestore_collection (Some mem_client) ''users'' 1 (fresh bare_memory) =
       (Inr [], \<lparr>store = bare_memory, calls = [LimitStream ''users'' 1]\<rparr>)
   \<and> fst (get_firestore_document (Some mem_client) ''users'' ''u1'' (fresh bare_memory)) =
       Inr [(''id'', PStr ''u1''), (''data'', PNone),
            (''message'', PStr ''Document exists but contains no data.'')]"
  by (simp add: query_firestore_collection_def get_firestore_document_def
      call_limit_stream_def call_document_get_def try_except_def
      mem_client_def mem_documents_def bare_memory_def fresh_def mem_snapshot_def)

text \<open>
  The in-memory store hands back exactly \<open>L\<close> snapshots when the collection holds at least
  \<open>L\<close> documents, which is how a collection of \<open>N \<ge> L\<close> documents reaches the tool.
\<close>

lemma mem_client_honours_limit:
  "nat limit \<le> length (mem_documents s c) \<Longrightarrow>
   raised (fst (limit_stream mem_client c limit s)) = None
   \<and> length (items (fst (limit_stream mem_client c limit s))) = nat limit"
  by (simp add: mem_client_def raised_iterator_of items_iterator_of)

text \<open>
  Where the guard does not interfere, the loop returns one mapping per fetched snapshot:
  when the store answers the query of limit \<open>L\<close> with \<open>L\<close> snapshots that all have fields,
  the tool returns exactly \<open>L\<close> mappings, in the order fetched, each with \<^verbatim>\<open>id\<close> set to the
  snapshot's identifier.
\<close>

lemma query_limit_with_fields:
  assumes "limit_stream cl collection_name limit (store w) = (docs_ref, s)"
    and "raised docs_ref = None"
    and "length (items docs_ref) = nat limit"
    and "list_all (\<lambda>doc. truthy (to_dict doc)) (items docs_ref)"
  shows "\<exists>documents.
           query_firestore_collection (Some cl) collection_name limit w =
             (Inr documents,
              \<lparr>store = s, calls = calls w @ [LimitStream collection_name limit]\<rparr>)
         \<and> length documents = nat limit
         \<and> list_all2
             (\<lambda>doc d. d = AList.update ''id'' (PStr (doc_id doc)) (the (to_dict doc))
                      \<and> map_of d ''id'' = Some (PStr (doc_id doc)))
             (items docs_ref) documents"
proof -
  let ?merge = "\<lambda>doc. AList.update ''id'' (PStr (doc_id doc)) (the (to_dict doc))"
  have kept: "filter (\<lambda>doc. truthy (to_dict doc)) (items docs_ref) = items docs_ref"
    using assms(4) by (simp add: list_all_iff)
  have q: "query_firestore_collection (Some cl) collection_name limit w =
             (Inr (map ?merge (items docs_ref)),
              \<lparr>store = s, calls = calls w @ [LimitStream collection_name limit]\<rparr>)"
    using assms(1,2) kept
    by (simp add: query_firestore_collection_def call_limit_stream_def try_except_def
        collect_documents_eq)
  have n: "length (map ?merge (items docs_ref)) = nat limit"
    using assms(3) by simp
  have l: "list_all2
             (\<lambda>doc d. d = AList.update ''id'' (PStr (doc_id doc)) (the (to_dict doc))
                      \<and> map_of d ''id'' = Some (PStr (doc_id doc)))
             (items docs_ref) (map ?merge (items docs_ref))"
    by (simp add: list_all2_map2 list.rel_refl id_merged)
  from q n l show ?thesis by blast
qed

lemma query_limit_with_fields_users:
  "length (mem_documents users_memory ''users'') = 2
   \<and> query_firestore_collection (Some mem_client) ''users'' 1 (fresh users_memory) =
       (Inr [[(''id'', PStr ''u1''), (''name'', PStr ''Ada'')]],
        \<lparr>store = users_memory, calls = [LimitStream ''users'' 1]\<rparr>)"
proof -
  let ?u1 = "\<lparr>doc_id = ''u1'', doc_exists = True,
              to_dict = Some [(''id'', PInt 7), (''name'', PStr ''Ada'')]\<rparr>"
  have a: "limit_stream mem_client ''users'' 1 (store (fresh users_memory)) =
             (iterator_of [?u1], users_memory)"
    by (simp add: mem_client_def mem_documents_def users_memory_def fresh_def mem_snapshot_def)
  have b: "raised (iterator_of [?u1]) = None"
    by simp
  have c: "length (items (iterator_of [?u1])) = nat 1"
    by simp
  have d: "list_all (\<lambda>doc. truthy (to_dict doc)) (items (iterator_of [?u1]))"
    by simp
  have n: "length (mem_documents users_memory ''users'') = 2"
    by (simp add: mem_documents_def users_memory_def)
  from query_limit_with_fields [OF a b c d] n show ?thesis
    by (auto simp: fresh_def list_all2_Cons1)
qed

section \<open>Adding a document and reading it back\<close>

text \<open>
  C3, as stated: for every field mapping, adding a document and getting it by the returned
  id gives the submitted fields plus \<^verbatim>\<open>id\<close>. It does not for the empty mapping: the
  document read back has no fields, and \<open>get_firestore_document\<close> answers with \<^verbatim>\<open>id\<close>,
  \<^verbatim>\<open>data\<close> and \<^verbatim>\<open>message\<close>.
\<close>

theorem add_then_get_counterexample:
  "fst (add_document_to_firestore (Some mem_client) ''users'' [] (fresh empty_memory)) =
     Inr [(''success'', PBool True), (''id'', PStr ''n1''),
          (''message'', PStr (''Document added to '' @ quoted ''users''))]
   \<and> fst (get_firestore_document (Some mem_client) ''users'' ''n1''
            (snd (add_document_to_firestore (Some mem_client) ''users'' [] (fresh empty_memory)))) =
     Inr [(''id'', PStr ''n1''), (''data'', PNone),
          (''message'', PStr ''Document exists but contains no data.'')]
   \<and> map_of [(''id'', PStr ''n1''), (''data'', PNone),
              (''message'', PStr ''Document exists but contains no data.'')]
     \<noteq> (map_of ([] :: pydict))(''id'' \<mapsto> PStr ''n1'')"
proof -
  have "map_of [(''id'', PStr ''n1''), (''data'', PNone),
              (''message'', PStr ''Document exists but contains no data.'')] ''data''
     \<noteq> ((map_of ([] :: pydict))(''id'' \<mapsto> PStr ''n1'')) ''data''"
    by simp
  then have "map_of [(''id'', PStr ''n1''), (''data'', PNone),
              (''message'', PStr ''Document exists but contains no data.'')]
     \<noteq> (map_of ([] :: pydict))(''id'' \<mapsto> PStr ''n1'')"
    by metis
  then show ?thesis
    by (simp add: add_document_to_firestore_def get_firestore_document_def
      call_collection_add_def call_document_get_def try_except_def
      mem_client_def mem_documents_def empty_memory_def fresh_def)
qed

text \<open>The in-memory store returns on \<open>get\<close> the fields that were added under the new id.\<close>

lemma mem_client_returns_what_was_added:
  assumes "mem_new_ids s = i # ids"
  shows "\<exists>s1. collection_add mem_client c d s = (Inr i, s1)
            \<and> document_get mem_client c i s1 =
                (Inr \<lparr>doc_id = i, doc_exists = True, to_dict = Some d\<rparr>, s1)"
  using assms
  by (simp add: mem_client_def mem_documents_def update_conv')

text \<open>
  C3, amended. For every collection name and every non-empty field mapping: when the store
  accepts the document and returns it on \<open>get\<close>, \<open>add_document_to_firestore\<close> reports
  success with the new id, and \<open>get_firestore_document\<close> with that id, called next, returns
  the submitted fields with \<^verbatim>\<open>id\<close> set to the new id.
\<close>

theorem add_then_get:
  assumes "collection_add cl collection_name document_data (store w) = (Inr new_id, s1)"
    and "document_get cl collection_name new_id s1 = (Inr doc, s2)"
    and "doc_exists doc"
    and "doc_id doc = new_id"
    and "to_dict doc = Some document_data"
    and "document_data \<noteq> []"
  shows "\<exists>w1 got.
           add_document_to_firestore (Some cl) collection_name document_data w =
             (Inr [(''success'', PBool True), (''id'', PStr new_id),
                   (''message'', PStr (''Document added to '' @ quoted collection_name))],
              w1)
         \<and> fst (get_firestore_document (Some cl) collection_name new_id w1) = Inr got
         \<and> got = AList.update ''id'' (PStr new_id) document_data
         \<and> map_of got = (map_of document_data)(''id'' \<mapsto> PStr new_id)"
  using assms
  by (simp add: add_document_to_firestore_def get_firestore_document_def
      call_collection_add_def call_document_get_def try_except_def update_conv')

theorem add_then_get_witness:
  "fst (get_firestore_document (Some mem_client) ''users'' ''n1''
          (snd (add_document_to_firestore (Some mem_client) ''users''
                  [(''name'', PStr ''Eve''), (''id'', PInt 3)] (fresh empty_memory)))) =
     Inr [(''name'', PStr ''Eve''), (''id'', PStr ''n1'')]"
proof -
  let ?d = "[(''name'', PStr ''Eve''), (''id'', PInt 3)]"
  let ?s1 = "\<lparr>mem_collections = [(''users'', [(''n1'', ?d)])], mem_subcollections = [],
              mem_new_ids = []\<rparr>"
  let ?doc = "\<lparr>doc_id = ''n1'', doc_exists = True, to_dict = Some ?d\<rparr>"
  have a: "collection_add mem_client ''users'' ?d (store (fresh empty_memory)) = (Inr ''n1'', ?s1)"
    by (simp add: mem_client_def mem_documents_def empty_memory_def fresh_def)
  have b: "document_get mem_client ''users'' ''n1'' ?s1 = (Inr ?doc, ?s1)"
    by (simp add: mem_client_def mem_documents_def)
  have c: "doc_exists ?doc" by simp
  have d: "doc_id ?doc = ''n1''" by simp
  have e: "to_dict ?doc = Some ?d" by simp
  have f: "?d \<noteq> []" by simp
  from add_then_get [OF a b c d e f] show ?thesis
    by auto
qed

section \<open>Initialization and the life of the handle\<close>

text \<open>
  A tool call returns a payload and the globals it was given; so does any sequence of
  tool calls.
\<close>

lemma call_tool_returns:
  "\<exists>r w'. call_tool g rq w = (Inr r, g, w')"
proof (cases rq)
  case (QueryFirestoreCollection c n)
  then show ?thesis
    using try_except_returns
    by (cases "db g")
       (auto simp: call_tool_def query_firestore_collection_def try_except_def
          split: prod.splits sum.splits)
next
  case (AddDocumentToFirestore c d)
  then show ?thesis
    by (cases "db g")
       (auto simp: call_tool_def add_document_to_firestore_def try_except_def
          split: prod.splits sum.splits)
next
  case ListFirestoreCollections
  then show ?thesis
    by (cases "db g")
       (auto simp: call_tool_def list_firestore_collections_def try_except_def
          split: prod.splits sum.splits)
next
  case (GetFirestoreDocument c i)
  then show ?thesis
    by (cases "db g")
       (auto simp: call_tool_def get_firestore_document_def try_except_def Let_def
          split: prod.splits sum.splits)
next
  case (ListDocumentSubcollections c i)
  then show ?thesis
    by (cases "db g")
       (auto simp: call_tool_def list_document_subcollections_def try_except_def Let_def
          split: prod.splits sum.splits)
qed

lemma serve_eq:
  "\<exists>rs w'. serve g rqs w = (rs, g, w') \<and> list_all (\<lambda>r. \<not> isl r) rs"
proof (induction rqs arbitrary: w)
  case Nil
  then show ?case by simp
next
  case (Cons rq rqs)
  obtain r w1 where c: "call_tool g rq w = (Inr r, g, w1)"
    using call_tool_returns by blast
  obtain rs w2 where s: "serve g rqs w1 = (rs, g, w2)" "list_all (\<lambda>r. \<not> isl r) rs"
    using Cons [of w1] by blast
  from c s show ?case
    by simp
qed

lemma serve_globals: "fst (snd (serve g rqs w)) = g"
  using serve_eq [of g rqs w] by auto

lemma serve_returns: "list_all (\<lambda>r. \<not> isl r) (fst (serve g rqs w))"
  using serve_eq [of g rqs w] by auto

text \<open>
  C9. Entering the lifespan from the module's initial globals always reaches a \<^verbatim>\<open>yield\<close>:
  nothing is raised and the server goes on to serve. The handle is left unset exactly when
  the key file is absent at the resolved path, or \<^verbatim>\<open>Certificate\<close> raises, or
  \<^verbatim>\<open>initialize_app\<close> is called and raises, or \<^verbatim>\<open>firestore.client\<close> raises; when it is set it is
  the client that \<^verbatim>\<open>firestore.client\<close> returned. Serving any sequence of tool calls
  afterwards leaves the globals as initialization left them, and every call returns.
\<close>

theorem lifespan_always_yields:
  "\<exists>g. firebase_lifespan env module_globals = Yielded g
      \<and> firebase_storage_bucket_name g = FIREBASE_STORAGE_BUCKET env
      \<and> (db g = None \<longleftrightarrow>
           \<not> path_exists env (effective_service_account_path env)
           \<or> (\<exists>e. Certificate env (effective_service_account_path env) = Inl e)
           \<or> (\<exists>cred e. Certificate env (effective_service_account_path env) = Inr cred
                        \<and> \<not> apps env \<and> initialize_app env cred = Inl e)
           \<or> (\<exists>e. firestore_client env = Inl e))
      \<and> (case db g of None \<Rightarrow> True | Some c \<Rightarrow> firestore_client env = Inr c)
      \<and> (\<forall>rqs w. fst (snd (serve g rqs w)) = g
                 \<and> list_all (\<lambda>r. \<not> isl r) (fst (serve g rqs w)))"
proof -
  let ?p = "effective_service_account_path env"
  let ?g = "module_globals\<lparr>firebase_storage_bucket_name := FIREBASE_STORAGE_BUCKET env\<rparr>"
  show ?thesis
  proof (cases "path_exists env ?p")
    case False
    then have "firebase_lifespan env module_globals = Yielded ?g"
      by (simp add: firebase_lifespan_def)
    with False show ?thesis
      by (simp add: module_globals_def serve_globals serve_returns)
  next
    case True
    show ?thesis
    proof (cases "obtain_client env ?p ?g")
      case (Inl e)
      with True have y: "firebase_lifespan env module_globals = Yielded ?g"
        by (simp add: firebase_lifespan_def)
      from Inl have "(\<exists>e. Certificate env ?p = Inl e)
           \<or> (\<exists>cred e. Certificate env ?p = Inr cred
                        \<and> \<not> apps env \<and> initialize_app env cred = Inl e)
           \<or> (\<exists>e. firestore_client env = Inl e)"
        by (auto simp: obtain_client_def split: sum.splits if_splits)
      with y show ?thesis
        by (simp add: module_globals_def serve_globals serve_returns)
    next
      case (Inr g')
      with True have y: "firebase_lifespan env module_globals = Yielded g'"
        by (simp add: firebase_lifespan_def)
      from Inr obtain c where c: "firestore_client env = Inr c" "g' = ?g\<lparr>db := Some c\<rparr>"
        and ok: "\<exists>cred. Certificate env ?p = Inr cred \<and> (apps env \<or> initialize_app env cred = Inr ())"
        by (auto simp: obtain_client_def split: sum.splits if_splits)
      from True c ok y show ?thesis
        by (auto simp: serve_globals serve_returns)
    qed
  qed
qed

theorem lifespan_always_yields_witness:
  "firebase_lifespan no_key_file module_globals =
     Yielded \<lparr>db = None, firebase_storage_bucket_name = None\<rparr>
   \<and> firebase_lifespan bad_key_file module_globals =
     Yielded \<lparr>db = None, firebase_storage_bucket_name = Some ''bucket''\<rparr>
   \<and> firebase_lifespan good_key_file module_globals =
     Yielded \<lparr>db = Some mem_client, firebase_storage_bucket_name = None\<rparr>"
proof -
  have p1: "effective_service_account_path no_key_file = ''/srv/app/serviceAccountKey.json''"
    by (simp add: effective_service_account_path_def no_key_file_def os_path_join_def)
  have p2: "effective_service_account_path bad_key_file = ''/etc/key.json''"
    by (simp add: effective_service_account_path_def bad_key_file_def)
  have p3: "effective_service_account_path good_key_file = ''/srv/app/serviceAccountKey.json''"
    by (simp add: effective_service_account_path_def good_key_file_def os_path_join_def)
  from lifespan_always_yields [of no_key_file] p1
  have a: "firebase_lifespan no_key_file module_globals =
     Yielded \<lparr>db = None, firebase_storage_bucket_name = None\<rparr>"
    by (auto simp: no_key_file_def)
  from lifespan_always_yields [of bad_key_file] p2
  have b: "firebase_lifespan bad_key_file module_globals =
     Yielded \<lparr>db = None, firebase_storage_bucket_name = Some ''bucket''\<rparr>"
    by (auto simp: bad_key_file_def)
  from lifespan_always_yields [of good_key_file] p3
  have c: "firebase_lifespan good_key_file module_globals =
     Yielded \<lparr>db = Some mem_client, firebase_storage_bucket_name = None\<rparr>"
    by (auto simp: good_key_file_def split: option.splits)
  from a b c show ?thesis by simp
qed

end
